theory Spec2Isabelle
  imports Complex_Main "HOL-Library.Sublist"
begin

section \<open>Demand forecasting pipeline of the AI service (models/demand\_predictor.py)\<close>

text \<open>
  The development embeds the class \<open>DemandPredictor\<close>. Python numbers are read as exact
  numbers: \<open>int\<close> for Python integers and \<open>real\<close> for Python floats, so rounding of binary
  floating point is not part of the model. The exceptions the source can trigger (a
  division by zero, a missing dict key, and the \<open>ValueError\<close> of numpy's seeding and of
  scikit-learn's input check) are values of the type \<open>error\<close>; a function that can raise
  returns \<open>error + 'a\<close>, and a \<open>try\<close> with \<open>except Exception\<close> is a case split on that sum.
\<close>

subsection \<open>Data model\<close>

datatype error = ZeroDivisionError | KeyError | ValueError

text \<open>
  A prediction is a Python dict with seven keys that are always present and three keys
  (\<open>investment_required\<close>, \<open>expected_profit\<close>, \<open>roi_percentage\<close>) that only the budget
  code writes; an absent key is \<open>None\<close>.
\<close>

record item_forecast =
  item_name :: string
  predicted_demand_30d :: int
  predicted_demand_60d :: int
  predicted_demand_90d :: int
  avg_daily_demand :: real
  confidence :: real
  reason :: string
  investment_required :: "real option"
  expected_profit :: "real option"
  roi_percentage :: "real option"

text \<open>Python's \<open>int(x)\<close> on a float truncates towards zero.\<close>

definition py_int :: "real \<Rightarrow> int" where
  "py_int x = (if 0 \<le> x then \<lfloor>x\<rfloor> else \<lceil>x\<rceil>)"

text \<open>Truth value of an optional number: \<open>None\<close> and \<open>0\<close> are false.\<close>

fun truthy :: "real option \<Rightarrow> bool" where
  "truthy None = False"
| "truthy (Some b) = (b \<noteq> 0)"

subsection \<open>Calendar\<close>

text \<open>
  A date is its number of days since 1970-01-01 (what a pandas timestamp at midnight
  holds, in days). The conversions between day numbers and civil dates are the usual
  era-based ones of the proleptic Gregorian calendar; they stand for
  \<open>pd.date_range\<close>, \<open>.dayofyear\<close>, \<open>.month\<close> and \<open>.isocalendar().week\<close>.
\<close>

type_synonym date = int

definition days_from_civil :: "int \<Rightarrow> int \<Rightarrow> int \<Rightarrow> date" where
  "days_from_civil y m d =
     (let y' = (if m \<le> 2 then y - 1 else y);
          era = y' div 400;
          yoe = y' - era * 400;
          mp = (m + 9) mod 12;
          doy = (153 * mp + 2) div 5 + d - 1;
          doe = yoe * 365 + yoe div 4 - yoe div 100 + doy
      in era * 146097 + doe - 719468)"

definition civil_from_days :: "date \<Rightarrow> int \<times> int \<times> int" where
  "civil_from_days z =
     (let z' = z + 719468;
          era = z' div 146097;
          doe = z' - era * 146097;
          yoe = (doe - doe div 1460 + doe div 36524 - doe div 146096) div 365;
          doy = doe - (365 * yoe + yoe div 4 - yoe div 100);
          mp = (5 * doy + 2) div 153;
          d = doy - (153 * mp + 2) div 5 + 1;
          m = (if mp < 10 then mp + 3 else mp - 9);
          y = yoe + era * 400
      in (if m \<le> 2 then y + 1 else y, m, d))"

definition year_of :: "date \<Rightarrow> int" where
  "year_of z = fst (civil_from_days z)"

definition month_of :: "date \<Rightarrow> int" where
  "month_of z = fst (snd (civil_from_days z))"

definition dayofyear :: "date \<Rightarrow> int" where
  "dayofyear z = z - days_from_civil (year_of z) 1 1 + 1"

text \<open>ISO weekday, Monday = 1; 1970-01-01 was a Thursday.\<close>

definition isoweekday :: "date \<Rightarrow> int" where
  "isoweekday z = (z + 3) mod 7 + 1"

definition weeks_in_year :: "int \<Rightarrow> int" where
  "weeks_in_year y =
     (let p = (\<lambda>y. (y + y div 4 - y div 100 + y div 400) mod 7)
      in if p y = 4 \<or> p (y - 1) = 3 then 53 else 52)"

definition isoweek :: "date \<Rightarrow> int" where
  "isoweek z =
     (let w = (dayofyear z - isoweekday z + 10) div 7
      in if w < 1 then weeks_in_year (year_of z - 1)
         else if w > weeks_in_year (year_of z) then 1
         else w)"

text \<open>\<open>pd.date_range(start, end, freq='D')\<close>: every day from start to end, both included.\<close>

definition date_range :: "date \<Rightarrow> date \<Rightarrow> date list" where
  "date_range start end_date = [start..end_date]"

text \<open>\<open>pd.date_range(start, periods=n, freq='D')\<close>: \<open>n\<close> consecutive days.\<close>

definition date_range_periods :: "date \<Rightarrow> int \<Rightarrow> date list" where
  "date_range_periods start periods = [start..start + periods - 1]"

subsection \<open>Synthetic data generator: \<open>_get_sales_data\<close>\<close>

text \<open>
  numpy's global pseudo-random generator is state that every draw reads and replaces. Its
  algorithm is not part of the repository, so it is a parameter: the state has an
  arbitrary type \<open>'g\<close> and the record below holds the state that \<open>np.random.seed(n)\<close>
  installs and the three draws the source makes. What is modelled of numpy itself is that
  \<open>np.random.seed\<close> replaces the whole state, and that it raises \<open>ValueError\<close> unless
  \<open>0 \<le> n < 2^32\<close>.
\<close>

record 'g np_random =
  seeded_state :: "int \<Rightarrow> 'g"
  poisson :: "real \<Rightarrow> 'g \<Rightarrow> int \<times> 'g"
  normal :: "real \<Rightarrow> real \<Rightarrow> 'g \<Rightarrow> real \<times> 'g"
  uniform :: "real \<Rightarrow> real \<Rightarrow> 'g \<Rightarrow> real \<times> 'g"

definition np_random_seed :: "'g np_random \<Rightarrow> int \<Rightarrow> 'g \<Rightarrow> error + 'g" where
  "np_random_seed R n g =
     (if 0 \<le> n \<and> n < 2 ^ 32 then Inr (seeded_state R n) else Inl ValueError)"

record sales_row =
  row_date :: date
  row_item_name :: string
  quantity_sold :: int
  price :: real

definition items :: "string list" where
  "items = [''item_a'', ''item_b'', ''item_c'', ''item_d'', ''item_e'']"

text \<open>Body of the inner loop (source lines 89 to 99); the draws happen in source order.\<close>

definition sales_row_for :: "'g np_random \<Rightarrow> date \<Rightarrow> string \<Rightarrow> 'g \<Rightarrow> sales_row \<times> 'g" where
  "sales_row_for R d item g =
     (let (base_sales, g1) = poisson R 10 g;
          seasonal_factor = 1 + 0.2 * sin (2 * pi * real_of_int (dayofyear d) / 365);
          (noise, g2) = normal R 0 0.1 g1;
          sales = py_int (real_of_int base_sales * seasonal_factor * (1 + noise));
          sales = max 0 sales;
          (pr, g3) = uniform R 50 200 g2
      in (\<lparr>row_date = d, row_item_name = item, quantity_sold = sales, price = pr\<rparr>, g3))"

fun rows_for_items :: "'g np_random \<Rightarrow> date \<Rightarrow> string list \<Rightarrow> 'g \<Rightarrow> sales_row list \<times> 'g" where
  "rows_for_items R d [] g = ([], g)"
| "rows_for_items R d (item # rest) g =
     (let (row, g1) = sales_row_for R d item g;
          (rows, g2) = rows_for_items R d rest g1
      in (row # rows, g2))"

fun rows_for_dates :: "'g np_random \<Rightarrow> date list \<Rightarrow> 'g \<Rightarrow> sales_row list \<times> 'g" where
  "rows_for_dates R [] g = ([], g)"
| "rows_for_dates R (d # ds) g =
     (let (rows, g1) = rows_for_items R d items g;
          (more, g2) = rows_for_dates R ds g1
      in (rows @ more, g2))"

text \<open>
  The function takes the generator state it finds and returns the table (or the error)
  with the state it leaves behind.
\<close>

definition get_sales_data ::
  "'g np_random \<Rightarrow> int \<Rightarrow> 'g \<Rightarrow> (error + sales_row list) \<times> 'g"
where
  "get_sales_data R company_id g =
     (case np_random_seed R company_id g of
        Inl e \<Rightarrow> (Inl e, g)
      | Inr g0 \<Rightarrow>
          (let dates = date_range (days_from_civil 2023 1 1) (days_from_civil 2024 10 31);
               (data, g1) = rows_for_dates R dates g0
           in (Inr data, g1)))"

subsection \<open>Per-item forecaster: \<open>_ml_prediction\<close>\<close>

text \<open>
  pandas' grouping and scikit-learn's splitting and fitting are parameters as well: the
  aggregated rows of each item (features and mean quantity, in the order of
  \<open>item_data['item_name'].unique()\<close>), the train/test partition, and the fitted forest as
  the function from a feature row to its prediction. What is modelled of the libraries
  themselves is that \<open>model.predict\<close> raises \<open>ValueError\<close> on the empty array that an
  empty range of future dates gives.
\<close>

type_synonym feature = "int \<times> int \<times> int"

record ml_library =
  group_mean :: "sales_row list \<Rightarrow> (string \<times> (feature \<times> real) list) list"
  train_test_split :: "(feature \<times> real) list \<Rightarrow> (feature \<times> real) list \<times> (feature \<times> real) list"
  forest_fit :: "(feature \<times> real) list \<Rightarrow> feature \<Rightarrow> real"

definition np_mean :: "real list \<Rightarrow> real" where
  "np_mean xs = sum_list xs / real (length xs)"

definition mean_absolute_error :: "real list \<Rightarrow> real list \<Rightarrow> real" where
  "mean_absolute_error y_true y_pred = np_mean (map (\<lambda>(a, b). \<bar>a - b\<bar>) (zip y_true y_pred))"

text \<open>
  \<open>max(0.3, 1.0 - (mae / np.mean(y_test)))\<close>. With a zero mean the numpy quotient is
  \<open>inf\<close> or \<open>nan\<close> (no exception), and \<open>max(0.3, -inf)\<close> and \<open>max(0.3, nan)\<close> are both
  \<open>0.3\<close>.
\<close>

definition ml_confidence :: "real list \<Rightarrow> real list \<Rightarrow> real" where
  "ml_confidence y_test y_pred =
     (let mae = mean_absolute_error y_test y_pred
      in if np_mean y_test = 0 then 0.3 else max 0.3 (1.0 - (mae / np_mean y_test)))"

definition features_of :: "date \<Rightarrow> feature" where
  "features_of d = (dayofyear d, month_of d, isoweek d)"

text \<open>Body of the loop over the items, after the length test (source lines 125 to 164).\<close>

definition ml_item ::
  "ml_library \<Rightarrow> date \<Rightarrow> int \<Rightarrow> string \<Rightarrow> (feature \<times> real) list \<Rightarrow> error + item_forecast"
where
  "ml_item L today days_ahead name item_df =
     (let (train, test) = train_test_split L item_df;
          model = forest_fit L train;
          future_dates = date_range_periods (today + 1) days_ahead;
          future_features = map features_of future_dates
      in if future_features = [] then Inl ValueError
         else
           (let future_predictions = map model future_features;
                y_test = map snd test;
                y_pred = map (\<lambda>r. model (fst r)) test
            in Inr \<lparr>item_name = name,
                    predicted_demand_30d = py_int (sum_list (take 30 future_predictions)),
                    predicted_demand_60d = py_int (sum_list (take 60 future_predictions)),
                    predicted_demand_90d = py_int (sum_list future_predictions),
                    avg_daily_demand = np_mean future_predictions,
                    confidence = ml_confidence y_test y_pred,
                    reason = ''Based on historical sales patterns and machine learning'',
                    investment_required = None,
                    expected_profit = None,
                    roi_percentage = None\<rparr>))"

fun ml_loop ::
  "ml_library \<Rightarrow> date \<Rightarrow> int \<Rightarrow> (string \<times> (feature \<times> real) list) list \<Rightarrow>
     error + item_forecast list"
where
  "ml_loop L today days_ahead [] = Inr []"
| "ml_loop L today days_ahead ((name, item_df) # rest) =
     (if length item_df < 5 then ml_loop L today days_ahead rest
      else
        (case ml_item L today days_ahead name item_df of
           Inl e \<Rightarrow> Inl e
         | Inr p \<Rightarrow>
             (case ml_loop L today days_ahead rest of
                Inl e \<Rightarrow> Inl e
              | Inr ps \<Rightarrow> Inr (p # ps))))"

text \<open>The function catches every exception of its body and returns the empty list then.\<close>

definition ml_prediction ::
  "ml_library \<Rightarrow> date \<Rightarrow> sales_row list \<Rightarrow> int \<Rightarrow> item_forecast list"
where
  "ml_prediction L today sales_data days_ahead =
     (case ml_loop L today days_ahead (group_mean L sales_data) of
        Inl e \<Rightarrow> []
      | Inr predictions \<Rightarrow> predictions)"

subsection \<open>Seasonal adjuster: \<open>_apply_seasonal_adjustments\<close>\<close>

definition seasonal_item :: "int \<Rightarrow> item_forecast \<Rightarrow> item_forecast" where
  "seasonal_item current_month pred =
     (if current_month \<in> set [11, 12]
      then pred\<lparr>predicted_demand_90d := py_int (real_of_int (predicted_demand_90d pred) * 1.3)\<rparr>
      else if current_month \<in> set [6, 7, 8]
      then pred\<lparr>predicted_demand_90d := py_int (real_of_int (predicted_demand_90d pred) * 0.9)\<rparr>
      else pred)"

definition apply_seasonal_adjustments :: "date \<Rightarrow> item_forecast list \<Rightarrow> item_forecast list" where
  "apply_seasonal_adjustments today predictions =
     (let current_month = month_of today
      in map (seasonal_item current_month) predictions)"

subsection \<open>Budget allocator: \<open>_apply_budget_constraints\<close>\<close>

text \<open>
  First loop (source lines 188 to 192). The quotient \<open>expected_profit / investment_required\<close>
  raises \<open>ZeroDivisionError\<close> when the investment is \<open>0\<close>, that is when
  \<open>predicted_demand_90d\<close> is \<open>0\<close>.
\<close>

definition price_item :: "item_forecast \<Rightarrow> error + item_forecast" where
  "price_item pred =
     (let investment = real_of_int (predicted_demand_90d pred * 100);
          profit = investment * 0.3
      in if investment = 0 then Inl ZeroDivisionError
         else Inr (pred\<lparr>investment_required := Some investment,
                        expected_profit := Some profit,
                        roi_percentage := Some ((profit / investment) * 100)\<rparr>))"

fun price_all :: "item_forecast list \<Rightarrow> error + item_forecast list" where
  "price_all [] = Inr []"
| "price_all (pred # preds) =
     (case price_item pred of
        Inl e \<Rightarrow> Inl e
      | Inr p \<Rightarrow> (case price_all preds of Inl e \<Rightarrow> Inl e | Inr ps \<Rightarrow> Inr (p # ps)))"

text \<open>
  \<open>predictions.sort(key=lambda x: x['roi_percentage'], reverse=True)\<close>: a stable sort in
  descending key order (Python keeps the original order of equal keys also with
  \<open>reverse=True\<close>); reading an absent key raises \<open>KeyError\<close>.
\<close>

definition roi_key :: "item_forecast \<Rightarrow> real" where
  "roi_key p = (case roi_percentage p of Some r \<Rightarrow> r | None \<Rightarrow> 0)"

definition sort_by_roi :: "item_forecast list \<Rightarrow> error + item_forecast list" where
  "sort_by_roi ps =
     (if list_all (\<lambda>p. roi_percentage p \<noteq> None) ps
      then Inr (sort_key (\<lambda>p. - roi_key p) ps)
      else Inl KeyError)"

text \<open>The copy built in the partial-allocation branch (source lines 208 to 211).\<close>

definition partial_item :: "item_forecast \<Rightarrow> real \<Rightarrow> item_forecast" where
  "partial_item pred remaining_budget =
     pred\<lparr>investment_required := Some remaining_budget,
          predicted_demand_90d := py_int (remaining_budget / 100),
          expected_profit := Some (remaining_budget * 0.3)\<rparr>"

text \<open>
  Second loop (source lines 200 to 213), with the running \<open>total_investment\<close> and the list
  \<open>budget_predictions\<close> as accumulators. The \<open>break\<close> belongs to the \<open>elif\<close> branch only: an
  item that does not fit while \<open>total_investment \<ge> budget\<close> is passed over and the loop
  goes on.
\<close>

fun allocate_loop ::
  "real \<Rightarrow> real \<Rightarrow> item_forecast list \<Rightarrow> item_forecast list \<Rightarrow> error + item_forecast list"
where
  "allocate_loop budget total_investment budget_predictions [] = Inr budget_predictions"
| "allocate_loop budget total_investment budget_predictions (pred # preds) =
     (case investment_required pred of
        None \<Rightarrow> Inl KeyError
      | Some investment \<Rightarrow>
          if total_investment + investment \<le> budget
          then allocate_loop budget (total_investment + investment) (budget_predictions @ [pred]) preds
          else if total_investment < budget
          then (let remaining_budget = budget - total_investment
                in if remaining_budget \<ge> 1000
                   then Inr (budget_predictions @ [partial_item pred remaining_budget])
                   else Inr budget_predictions)
          else allocate_loop budget total_investment budget_predictions preds)"

definition apply_budget_constraints ::
  "item_forecast list \<Rightarrow> real \<Rightarrow> error + item_forecast list"
where
  "apply_budget_constraints predictions budget =
     (case price_all predictions of
        Inl e \<Rightarrow> Inl e
      | Inr priced \<Rightarrow>
          (case sort_by_roi priced of
             Inl e \<Rightarrow> Inl e
           | Inr sorted_preds \<Rightarrow> allocate_loop budget 0 [] sorted_preds))"

subsection \<open>Fallback generator: \<open>_fallback_prediction\<close>\<close>

definition default_items :: "string list" where
  "default_items =
     [''Coffee Beans (Premium)'',
      ''Hand Sanitizer Bottles'',
      ''Reusable Shopping Bags'',
      ''Energy-efficient Light Bulbs'',
      ''Organic Tea Collection'']"

text \<open>One round of the \<open>enumerate\<close> loop (source lines 229 to 247).\<close>

definition fallback_item :: "real option \<Rightarrow> nat \<Rightarrow> string \<Rightarrow> item_forecast" where
  "fallback_item budget i item =
     (let base_demand = 50 + (int i * 25);
          conf = 0.6 - (real i * 0.1);
          prediction = \<lparr>item_name = item,
                        predicted_demand_30d = base_demand,
                        predicted_demand_60d = base_demand * 2,
                        predicted_demand_90d = base_demand * 3,
                        avg_daily_demand = real_of_int base_demand / 30,
                        confidence = max 0.4 conf,
                        reason = ''Based on industry trends and market analysis'',
                        investment_required = None,
                        expected_profit = None,
                        roi_percentage = None\<rparr>
      in if truthy budget
         then prediction\<lparr>investment_required := Some (real_of_int (base_demand * 150)),
                         expected_profit := Some (real_of_int (base_demand * 150) * 0.25),
                         roi_percentage := Some 25\<rparr>
         else prediction)"

definition fallback_items :: "real option \<Rightarrow> item_forecast list" where
  "fallback_items budget =
     map (\<lambda>(i, item). fallback_item budget i item) (enumerate 0 default_items)"

text \<open>The parameter \<open>days_ahead\<close> is kept because the source function takes it.\<close>

definition fallback_prediction :: "real option \<Rightarrow> int \<Rightarrow> error + item_forecast list" where
  "fallback_prediction budget days_ahead =
     (case budget of
        None \<Rightarrow> Inr (fallback_items budget)
      | Some b \<Rightarrow>
          if b \<noteq> 0 then apply_budget_constraints (fallback_items budget) b
          else Inr (fallback_items budget))"

subsection \<open>The public operation: \<open>predict\<close>\<close>

text \<open>
  The guarded part of \<open>predict\<close> (the body of its \<open>try\<close>), with the wall-clock date
  \<open>today\<close> of \<open>datetime.now()\<close> as a parameter.
\<close>

definition ml_path ::
  "ml_library \<Rightarrow> date \<Rightarrow> sales_row list \<Rightarrow> real option \<Rightarrow> int \<Rightarrow> error + item_forecast list"
where
  "ml_path L today sales_data budget days_ahead =
     (let predictions = ml_prediction L today sales_data days_ahead;
          predictions = apply_seasonal_adjustments today predictions
      in case budget of
           None \<Rightarrow> Inr predictions
         | Some b \<Rightarrow>
             if b \<noteq> 0 then apply_budget_constraints predictions b else Inr predictions)"

definition predict_try ::
  "'g np_random \<Rightarrow> ml_library \<Rightarrow> date \<Rightarrow> int \<Rightarrow> real option \<Rightarrow> int \<Rightarrow> 'g \<Rightarrow>
     (error + item_forecast list) \<times> 'g"
where
  "predict_try R L today company_id budget days_ahead g =
     (case get_sales_data R company_id g of
        (Inl e, g1) \<Rightarrow> (Inl e, g1)
      | (Inr sales_data, g1) \<Rightarrow>
          (if length sales_data < 10 then fallback_prediction budget days_ahead
           else ml_path L today sales_data budget days_ahead, g1))"


subsection \<open>Recommendation composer: \<open>generate_recommendations\<close>\<close>

text \<open>
  A recommendation is a dict whose keys depend on its kind. The two formatted strings
  are kept as their template and argument: \<open>Rs_amount\<close> is the title
  \<open>'Optimal Budget Allocation for Rs {budget:,.0f}'\<close> and \<open>Top_count\<close> the description
  \<open>'Focus on top {len(top_items)} high-confidence items for maximum ROI'\<close>.
\<close>

datatype message = Plain string | Rs_amount real | Top_count nat

record recommendation =
  rec_type :: string
  title :: message
  description :: message
  rec_items :: "item_forecast list option"
  total_investment :: "real option"
  rec_expected_profit :: "real option"
  roi :: "real option"
  priority :: "string option"
  action :: "string option"

text \<open>\<open>pred.get(key, 0)\<close> on an optional key.\<close>

definition get_or_zero :: "real option \<Rightarrow> real" where
  "get_or_zero v = (case v of Some x \<Rightarrow> x | None \<Rightarrow> 0)"



subsection \<open>Derived quantities and sample inputs\<close>

text \<open>Sum of \<open>investment_required\<close> over a list of predictions.\<close>

definition investment_sum :: "item_forecast list \<Rightarrow> real" where
  "investment_sum ps = sum_list (map (\<lambda>pred. get_or_zero (investment_required pred)) ps)"

text \<open>A prediction whose 90-day demand is zero, as the forecaster writes it.\<close>

definition zero_demand_item :: item_forecast where
  "zero_demand_item =
     \<lparr>item_name = ''item_a'', predicted_demand_30d = 0, predicted_demand_60d = 0,
      predicted_demand_90d = 0, avg_daily_demand = 0, confidence = 0.5,
      reason = ''Based on historical sales patterns and machine learning'',
      investment_required = None, expected_profit = None, roi_percentage = None\<rparr>"

text \<open>
  Stand-ins for the two libraries, to run the functions on concrete inputs: a small
  congruential generator, and a forecaster that finds five aggregated rows for
  \<open>item_a\<close> and four for \<open>item_b\<close>, holds out the rows after the fourth, and predicts
  the mean of its training targets.
\<close>

definition sample_rng :: "nat np_random" where
  "sample_rng =
     \<lparr>seeded_state = (\<lambda>n. nat n),
      poisson = (\<lambda>lam g. (int (g mod 21), (75 * g + 74) mod 65537)),
      normal = (\<lambda>mu sigma g. (mu + sigma * (real (g mod 5) - 2), (75 * g + 74) mod 65537)),
      uniform = (\<lambda>lo hi g. (lo + (hi - lo) * real (g mod 100) / 100, (75 * g + 74) mod 65537))\<rparr>"

definition sample_library :: ml_library where
  "sample_library =
     \<lparr>group_mean = (\<lambda>rows.
        [(''item_a'', [((1, 1, 52), 10), ((2, 1, 1), 12), ((3, 1, 1), 8), ((4, 1, 1), 11), ((5, 1, 1), 9)]),
         (''item_b'', [((1, 1, 52), 7), ((2, 1, 1), 6), ((3, 1, 1), 9), ((4, 1, 1), 5)])]),
      train_test_split = (\<lambda>rows. (take 4 rows, drop 4 rows)),
      forest_fit = (\<lambda>train x. np_mean (map snd train))\<rparr>"

text \<open>
  What the properties below need from pandas and scikit-learn: the mean quantity of a
  group of rows with non-negative quantities is not negative; the train and test parts
  are rows of the table that was split; and a forest fitted to non-negative targets
  predicts no negative value (its prediction is an average of training targets).
\<close>

definition library_sound :: "ml_library \<Rightarrow> bool" where
  "library_sound L \<longleftrightarrow>
     (\<forall>rows. (\<forall>r\<in>set rows. 0 \<le> quantity_sold r) \<longrightarrow>
        (\<forall>g\<in>set (group_mean L rows). \<forall>xy\<in>set (snd g). 0 \<le> snd xy)) \<and>
     (\<forall>df. set (fst (train_test_split L df)) \<subseteq> set df \<and>
           set (snd (train_test_split L df)) \<subseteq> set df) \<and>
     (\<forall>train x. (\<forall>xy\<in>set train. 0 \<le> snd xy) \<longrightarrow> 0 \<le> forest_fit L train x)"

text \<open>
  The two orders on the demand horizons: \<open>horizons_nonneg\<close> is
  \<open>0 \<le> 30d \<le> 60d\<close> with \<open>0 \<le> 90d\<close>, and \<open>horizons_ordered\<close> is
  \<open>0 \<le> 30d \<le> 60d \<le> 90d\<close>.
\<close>

definition horizons_nonneg :: "item_forecast \<Rightarrow> bool" where
  "horizons_nonneg p \<longleftrightarrow>
     0 \<le> predicted_demand_30d p \<and> predicted_demand_30d p \<le> predicted_demand_60d p \<and>
     0 \<le> predicted_demand_90d p"

definition horizons_ordered :: "item_forecast \<Rightarrow> bool" where
  "horizons_ordered p \<longleftrightarrow>
     0 \<le> predicted_demand_30d p \<and> predicted_demand_30d p \<le> predicted_demand_60d p \<and>
     predicted_demand_60d p \<le> predicted_demand_90d p"

definition confidence_in :: "real \<Rightarrow> real \<Rightarrow> item_forecast \<Rightarrow> bool" where
  "confidence_in lo hi p \<longleftrightarrow> lo \<le> confidence p \<and> confidence p \<le> hi"

section \<open>Properties\<close>

subsection \<open>Basic facts about the first loop\<close>

lemma price_item_Inr:
  "price_item pred = Inr p \<longleftrightarrow>
     predicted_demand_90d pred \<noteq> 0 \<and>
     p = pred\<lparr>investment_required := Some (real_of_int (predicted_demand_90d pred * 100)),
              expected_profit := Some (real_of_int (predicted_demand_90d pred * 100) * 0.3),
              roi_percentage := Some 30\<rparr>"
  by (auto simp: price_item_def Let_def)

lemma price_item_Inl:
  "price_item pred = Inl e \<longleftrightarrow> predicted_demand_90d pred = 0 \<and> e = ZeroDivisionError"
  by (auto simp: price_item_def Let_def)

text \<open>
  C6. Step 1 of the budget allocator is meant to give every item
  \<open>investment_required = predicted_demand_90d * 100\<close>, \<open>expected_profit\<close> 0.3 times that and
  \<open>roi_percentage = 30\<close>, also for an item whose 90-day demand is \<open>0\<close>. For a non-zero
  demand it does (\<open>price_item_Inr\<close>); for the zero-demand item the quotient that computes
  the percentage divides by zero, and the allocator raises instead of returning.
\<close>

theorem budget_step1_zero_demand_raises:
  "price_item zero_demand_item = Inl ZeroDivisionError \<and>
   apply_budget_constraints [zero_demand_item] 1000 = Inl ZeroDivisionError"
  by (simp add: apply_budget_constraints_def price_item_def zero_demand_item_def)

text \<open>
  C3. On the fallback path with a budget, the items leave the allocator with the unit
  cost 100 and the 30 percent margin of the allocator's first loop, which overwrites the
  values (unit cost 150, margin 25 percent, percentage 25) that the fallback generator
  wrote: with a budget of 1000000 every item is accepted in full and carries
  \<open>investment_required = predicted_demand_90d * 100\<close> and \<open>roi_percentage = 30\<close>
  (for the first item 15000 and 4500, where 150 and 25 percent would give 7500 and 1875).
\<close>

theorem fallback_budget_uses_allocator_constants:
  "map (\<lambda>p. (predicted_demand_30d p, predicted_demand_90d p, investment_required p,
             expected_profit p, roi_percentage p))
       (projr (fallback_prediction (Some 1000000) 90))
   = [(50, 150, Some 15000, Some 4500, Some 30),
      (75, 225, Some 22500, Some 6750, Some 30),
      (100, 300, Some 30000, Some 9000, Some 30),
      (125, 375, Some 37500, Some 11250, Some 30),
      (150, 450, Some 45000, Some 13500, Some 30)]"
  by (simp add: fallback_prediction_def fallback_items_def default_items_def fallback_item_def
      apply_budget_constraints_def price_item_def sort_by_roi_def roi_key_def enumerate_eq_zip
      Let_def)

text \<open>
  C10. The fallback prediction does not depend on the horizon \<open>days_ahead\<close> (and it has no
  company identifier among its arguments): two calls with the same budget return the same
  list, and without a budget that list is the fixed five-item catalogue.
\<close>

theorem fallback_independent_of_horizon:
  "fallback_prediction budget days_ahead = fallback_prediction budget days_ahead' \<and>
   map (\<lambda>p. (item_name p, predicted_demand_30d p, predicted_demand_60d p,
             predicted_demand_90d p, confidence p))
       (projr (fallback_prediction None days_ahead))
   = [(''Coffee Beans (Premium)'', 50, 100, 150, 0.6),
      (''Hand Sanitizer Bottles'', 75, 150, 225, 0.5),
      (''Reusable Shopping Bags'', 100, 200, 300, 0.4),
      (''Energy-efficient Light Bulbs'', 125, 250, 375, 0.4),
      (''Organic Tea Collection'', 150, 300, 450, 0.4)]"
  by (simp add: fallback_prediction_def fallback_items_def default_items_def fallback_item_def
      enumerate_eq_zip Let_def)

subsection \<open>The allocation loop\<close>

lemma investment_sum_simps [simp]:
  "investment_sum [] = 0"
  "investment_sum (p # ps) = get_or_zero (investment_required p) + investment_sum ps"
  "investment_sum (ps @ qs) = investment_sum ps + investment_sum qs"
  by (simp_all add: investment_sum_def)

lemma allocate_loop_sum:
  "allocate_loop b t acc ps = Inr r \<Longrightarrow> t \<le> b \<Longrightarrow>
     investment_sum r - investment_sum acc + t \<le> b"
proof (induction ps arbitrary: t acc)
  case Nil
  then show ?case by simp
next
  case (Cons p ps)
  from Cons.prems obtain v where v: "investment_required p = Some v"
    by (auto split: option.splits)
  consider (fit) "t + v \<le> b" | (part) "\<not> t + v \<le> b" "t < b" | (skip) "\<not> t + v \<le> b" "\<not> t < b"
    by blast
  then show ?case
  proof cases
    case fit
    with Cons.prems v have "allocate_loop b (t + v) (acc @ [p]) ps = Inr r" by simp
    from Cons.IH [OF this fit] v show ?thesis by (simp add: get_or_zero_def)
  next
    case part
    with Cons.prems v show ?thesis
      by (auto simp: Let_def get_or_zero_def partial_item_def split: if_splits)
  next
    case skip
    with Cons.prems v have "allocate_loop b t acc ps = Inr r" by simp
    from Cons.IH [OF this Cons.prems(2)] show ?thesis .
  qed
qed

lemma allocate_loop_shape:
  "allocate_loop b t acc ps = Inr r \<Longrightarrow>
     (\<exists>xs. r = acc @ xs \<and> subseq xs ps) \<or>
     (\<exists>pre q post xs.
        ps = pre @ q # post \<and> allocate_loop b t acc pre = Inr (acc @ xs) \<and> subseq xs pre \<and>
        (pre = [] \<and> xs = [] \<or> pre \<noteq> [] \<and> xs \<noteq> [] \<and> last xs = last pre) \<and>
        1000 \<le> b - (t + investment_sum xs) \<and>
        r = acc @ xs @ [partial_item q (b - (t + investment_sum xs))])"
proof (induction ps arbitrary: t acc)
  case Nil
  then show ?case by simp
next
  case (Cons p ps)
  from Cons.prems obtain v where v: "investment_required p = Some v"
    by (auto split: option.splits)
  consider (fit) "t + v \<le> b" | (part) "\<not> t + v \<le> b" "t < b" | (skip) "\<not> t + v \<le> b" "\<not> t < b"
    by blast
  then show ?case
  proof cases
    case fit
    with Cons.prems v have run: "allocate_loop b (t + v) (acc @ [p]) ps = Inr r" by simp
    from Cons.IH [OF run] show ?thesis
    proof
      assume "\<exists>xs. r = (acc @ [p]) @ xs \<and> subseq xs ps"
      then obtain xs where "r = (acc @ [p]) @ xs" "subseq xs ps" by blast
      then have "r = acc @ (p # xs) \<and> subseq (p # xs) (p # ps)" by simp
      then show ?thesis by blast
    next
      assume "\<exists>pre q post xs.
        ps = pre @ q # post \<and> allocate_loop b (t + v) (acc @ [p]) pre = Inr ((acc @ [p]) @ xs) \<and>
        subseq xs pre \<and>
        (pre = [] \<and> xs = [] \<or> pre \<noteq> [] \<and> xs \<noteq> [] \<and> last xs = last pre) \<and>
        1000 \<le> b - (t + v + investment_sum xs) \<and>
        r = (acc @ [p]) @ xs @ [partial_item q (b - (t + v + investment_sum xs))]"
      then obtain pre q post xs where
        a: "ps = pre @ q # post" "allocate_loop b (t + v) (acc @ [p]) pre = Inr ((acc @ [p]) @ xs)"
        "subseq xs pre" "pre = [] \<and> xs = [] \<or> pre \<noteq> [] \<and> xs \<noteq> [] \<and> last xs = last pre"
        "1000 \<le> b - (t + v + investment_sum xs)"
        "r = (acc @ [p]) @ xs @ [partial_item q (b - (t + v + investment_sum xs))]"
        by blast
      have 1: "p # ps = (p # pre) @ q # post" using a(1) by simp
      have 2: "allocate_loop b t acc (p # pre) = Inr (acc @ (p # xs))" using a(2) v fit by simp
      have 3: "subseq (p # xs) (p # pre)" using a(3) by simp
      have 4: "p # pre \<noteq> [] \<and> p # xs \<noteq> [] \<and> last (p # xs) = last (p # pre)" using a(4) by auto
      have 5: "1000 \<le> b - (t + investment_sum (p # xs))" using a(5) v by (simp add: get_or_zero_def)
      have 6: "r = acc @ (p # xs) @ [partial_item q (b - (t + investment_sum (p # xs)))]"
        using a(6) v by (simp add: get_or_zero_def add.assoc)
      show ?thesis
        by (rule disjI2, rule exI [of _ "p # pre"], rule exI [of _ q], rule exI [of _ post],
            rule exI [of _ "p # xs"]) (use 1 2 3 4 5 6 in blast)
    qed
  next
    case part
    show ?thesis
    proof (cases "1000 \<le> b - t")
      case True
      with Cons.prems v part have "r = acc @ [] @ [partial_item p (b - (t + investment_sum []))]"
        by (simp add: Let_def)
      moreover have "p # ps = [] @ p # ps" by simp
      moreover have "allocate_loop b t acc [] = Inr (acc @ [])" by simp
      moreover have "1000 \<le> b - (t + investment_sum [])" using True by simp
      ultimately show ?thesis
        by (intro disjI2 exI [of _ "[]"] exI [of _ p] exI [of _ ps]) simp
    next
      case False
      with Cons.prems v part have "r = acc @ []" by (simp add: Let_def)
      then show ?thesis by blast
    qed
  next
    case skip
    with Cons.prems v have run: "allocate_loop b t acc ps = Inr r" by simp
    from Cons.IH [OF run] show ?thesis
    proof
      assume "\<exists>xs. r = acc @ xs \<and> subseq xs ps"
      then obtain xs where "r = acc @ xs" "subseq xs ps" by blast
      then have "r = acc @ xs \<and> subseq xs (p # ps)" by (simp add: list_emb_Cons)
      then show ?thesis by blast
    next
      assume "\<exists>pre q post xs.
        ps = pre @ q # post \<and> allocate_loop b t acc pre = Inr (acc @ xs) \<and> subseq xs pre \<and>
        (pre = [] \<and> xs = [] \<or> pre \<noteq> [] \<and> xs \<noteq> [] \<and> last xs = last pre) \<and>
        1000 \<le> b - (t + investment_sum xs) \<and>
        r = acc @ xs @ [partial_item q (b - (t + investment_sum xs))]"
      then obtain pre q post xs where
        a: "ps = pre @ q # post" "allocate_loop b t acc pre = Inr (acc @ xs)"
        "subseq xs pre" "pre = [] \<and> xs = [] \<or> pre \<noteq> [] \<and> xs \<noteq> [] \<and> last xs = last pre"
        "1000 \<le> b - (t + investment_sum xs)"
        "r = acc @ xs @ [partial_item q (b - (t + investment_sum xs))]"
        by blast
      have ne: "pre \<noteq> [] \<and> xs \<noteq> [] \<and> last xs = last pre"
        using a(4) a(5) skip by auto
      have 1: "p # ps = (p # pre) @ q # post" using a(1) by simp
      have 2: "allocate_loop b t acc (p # pre) = Inr (acc @ xs)" using a(2) v skip by simp
      have 3: "subseq xs (p # pre)" using a(3) by (simp add: list_emb_Cons)
      have 4: "p # pre \<noteq> [] \<and> xs \<noteq> [] \<and> last xs = last (p # pre)" using ne by simp
      show ?thesis
        by (rule disjI2, rule exI [of _ "p # pre"], rule exI [of _ q], rule exI [of _ post],
            rule exI [of _ xs]) (use 1 2 3 4 a(5) a(6) in blast)
    qed
  qed
qed



lemma price_all_Inl:
  "price_all ps = Inl e \<Longrightarrow> e = ZeroDivisionError \<and> (\<exists>p\<in>set ps. predicted_demand_90d p = 0)"
  by (induction ps) (auto split: sum.splits simp: price_item_Inl)




text \<open>
  C1 (as amended: for a budget that is not negative). Whenever the budget allocator
  returns a list for a budget \<open>\<ge> 0\<close>, the investments of the returned items sum to at
  most the budget. The returned list is either a subsequence of the priced and sorted
  input (no partial item), or the fully accepted items \<open>accepted\<close> followed by exactly one
  partial item: the partial item is made from the item \<open>q\<close> that stands in the sorted
  list right after the last fully accepted one (right at the front when nothing was
  accepted), its \<open>investment_required\<close> is the budget minus the sum of the accepted
  investments, and that remainder is at least 1000.
\<close>

theorem budget_allocation_postcondition:
  assumes "apply_budget_constraints predictions budget = Inr result" and "0 \<le> budget"
  shows "investment_sum result \<le> budget \<and>
    (\<exists>priced sorted_preds.
       price_all predictions = Inr priced \<and> sort_by_roi priced = Inr sorted_preds \<and>
       (subseq result sorted_preds \<or>
        (\<exists>pre q post accepted.
           sorted_preds = pre @ q # post \<and>
           allocate_loop budget 0 [] pre = Inr accepted \<and> subseq accepted pre \<and>
           (pre = [] \<and> accepted = [] \<or>
            pre \<noteq> [] \<and> accepted \<noteq> [] \<and> last accepted = last pre) \<and>
           1000 \<le> budget - investment_sum accepted \<and>
           result = accepted @ [partial_item q (budget - investment_sum accepted)] \<and>
           investment_required (last result) = Some (budget - investment_sum accepted))))"
proof -
  from assms(1) obtain priced sorted_preds where
    p: "price_all predictions = Inr priced" and
    s: "sort_by_roi priced = Inr sorted_preds" and
    l: "allocate_loop budget 0 [] sorted_preds = Inr result"
    by (auto simp: apply_budget_constraints_def split: sum.splits)
  from allocate_loop_sum [OF l assms(2)] have total: "investment_sum result \<le> budget" by simp
  let ?partial = "\<lambda>pre q post accepted.
        sorted_preds = pre @ q # post \<and>
        allocate_loop budget 0 [] pre = Inr accepted \<and> subseq accepted pre \<and>
        (pre = [] \<and> accepted = [] \<or>
         pre \<noteq> [] \<and> accepted \<noteq> [] \<and> last accepted = last pre) \<and>
        1000 \<le> budget - investment_sum accepted \<and>
        result = accepted @ [partial_item q (budget - investment_sum accepted)] \<and>
        investment_required (last result) = Some (budget - investment_sum accepted)"
  from allocate_loop_shape [OF l] have
    "subseq result sorted_preds \<or> (\<exists>pre q post accepted. ?partial pre q post accepted)"
  proof
    assume "\<exists>xs. result = [] @ xs \<and> subseq xs sorted_preds"
    then show ?thesis by simp
  next
    assume "\<exists>pre q post xs.
        sorted_preds = pre @ q # post \<and> allocate_loop budget 0 [] pre = Inr ([] @ xs) \<and>
        subseq xs pre \<and>
        (pre = [] \<and> xs = [] \<or> pre \<noteq> [] \<and> xs \<noteq> [] \<and> last xs = last pre) \<and>
        1000 \<le> budget - (0 + investment_sum xs) \<and>
        result = [] @ xs @ [partial_item q (budget - (0 + investment_sum xs))]"
    then obtain pre q post xs where
      a: "sorted_preds = pre @ q # post" "allocate_loop budget 0 [] pre = Inr xs"
        "subseq xs pre"
        "pre = [] \<and> xs = [] \<or> pre \<noteq> [] \<and> xs \<noteq> [] \<and> last xs = last pre"
        "1000 \<le> budget - investment_sum xs"
        "result = xs @ [partial_item q (budget - investment_sum xs)]"
      by auto
    have "investment_required (last result) = Some (budget - investment_sum xs)"
      using a(6) by (simp add: partial_item_def)
    with a have "?partial pre q post xs" by blast
    then show ?thesis by blast
  qed
  with total p s show ?thesis by blast
qed

text \<open>
  The theorem at a budget of 16000 for the five fallback items: the first item (15000) is
  accepted and the second is cut down to the remaining 1000.
\<close>

theorem budget_allocation_postcondition_witness:
  "apply_budget_constraints (fallback_items None) 16000
     = Inr [(fallback_items None ! 0)
              \<lparr>investment_required := Some 15000, expected_profit := Some 4500,
               roi_percentage := Some 30\<rparr>,
            (fallback_items None ! 1)
              \<lparr>predicted_demand_90d := 10, investment_required := Some 1000,
               expected_profit := Some 300, roi_percentage := Some 30\<rparr>] \<and>
   (0::real) \<le> 16000 \<and>
   investment_sum (projr (apply_budget_constraints (fallback_items None) 16000)) \<le> 16000"
proof -
  have run: "apply_budget_constraints (fallback_items None) 16000
     = Inr [(fallback_items None ! 0)
              \<lparr>investment_required := Some 15000, expected_profit := Some 4500,
               roi_percentage := Some 30\<rparr>,
            (fallback_items None ! 1)
              \<lparr>predicted_demand_90d := 10, investment_required := Some 1000,
               expected_profit := Some 300, roi_percentage := Some 30\<rparr>]"
    by (simp add: fallback_items_def default_items_def fallback_item_def
        apply_budget_constraints_def price_item_def sort_by_roi_def roi_key_def enumerate_eq_zip
        partial_item_def py_int_def Let_def)
  have nonneg: "(0::real) \<le> 16000" by simp
  from budget_allocation_postcondition [OF run nonneg] run nonneg show ?thesis by simp
qed

text \<open>
  As stated for every budget, the bound fails: with a negative budget nothing is accepted,
  and the empty result has total investment \<open>0\<close>, above the budget.
\<close>

theorem budget_allocation_negative_budget_counterexample:
  "apply_budget_constraints (fallback_items None) (-5) = Inr [] \<and>
   \<not> investment_sum [] \<le> (-5::real)"
  by (simp add: fallback_items_def default_items_def fallback_item_def
      apply_budget_constraints_def price_item_def sort_by_roi_def roi_key_def enumerate_eq_zip
      Let_def)

subsection \<open>The recommendation composer\<close>





subsection \<open>The synthetic data generator\<close>

lemma sales_row_for_fields:
  "row_date (fst (sales_row_for R d item g)) = d \<and>
   row_item_name (fst (sales_row_for R d item g)) = item \<and>
   0 \<le> quantity_sold (fst (sales_row_for R d item g))"
  by (simp add: sales_row_for_def Let_def split: prod.splits)

lemma rows_for_items_keys:
  "map (\<lambda>r. (row_date r, row_item_name r)) (fst (rows_for_items R d its g)) = map (Pair d) its"
proof (induction its arbitrary: g)
  case Nil
  then show ?case by simp
next
  case (Cons item rest)
  obtain row g1 where r: "sales_row_for R d item g = (row, g1)"
    by (cases "sales_row_for R d item g")
  obtain rows g2 where m: "rows_for_items R d rest g1 = (rows, g2)"
    by (cases "rows_for_items R d rest g1")
  have "row_date row = d \<and> row_item_name row = item"
    using sales_row_for_fields [of R d item g] r by simp
  moreover have "map (\<lambda>r. (row_date r, row_item_name r)) rows = map (Pair d) rest"
    using Cons.IH [of g1] m by simp
  ultimately show ?case using r m by simp
qed

lemma rows_for_dates_keys:
  "map (\<lambda>r. (row_date r, row_item_name r)) (fst (rows_for_dates R ds g)) = List.product ds items"
proof (induction ds arbitrary: g)
  case Nil
  then show ?case by simp
next
  case (Cons d ds)
  obtain rows g1 where r: "rows_for_items R d items g = (rows, g1)"
    by (cases "rows_for_items R d items g")
  obtain more g2 where m: "rows_for_dates R ds g1 = (more, g2)"
    by (cases "rows_for_dates R ds g1")
  have 1: "map (\<lambda>r. (row_date r, row_item_name r)) rows = map (Pair d) items"
    using rows_for_items_keys [of R d items g] r by simp
  have 2: "map (\<lambda>r. (row_date r, row_item_name r)) more = List.product ds items"
    using Cons.IH [of g1] m by simp
  show ?case using r m 1 2 by simp
qed

lemma sales_window_length:
  "length (date_range (days_from_civil 2023 1 1) (days_from_civil 2024 10 31)) = 670"
  by (simp add: date_range_def days_from_civil_def Let_def cong: let_weak_cong)

lemma rows_for_items_nonneg:
  "\<forall>r\<in>set (fst (rows_for_items R d its g)). 0 \<le> quantity_sold r"
proof (induction its arbitrary: g)
  case Nil
  then show ?case by simp
next
  case (Cons item rest)
  obtain row g1 where r: "sales_row_for R d item g = (row, g1)"
    by (cases "sales_row_for R d item g")
  obtain rows g2 where m: "rows_for_items R d rest g1 = (rows, g2)"
    by (cases "rows_for_items R d rest g1")
  have "0 \<le> quantity_sold row"
    using sales_row_for_fields [of R d item g] r by simp
  moreover have "\<forall>r\<in>set rows. 0 \<le> quantity_sold r"
    using Cons.IH [of g1] m by simp
  ultimately show ?case using r m by simp
qed

lemma rows_for_dates_nonneg:
  "\<forall>r\<in>set (fst (rows_for_dates R ds g)). 0 \<le> quantity_sold r"
proof (induction ds arbitrary: g)
  case Nil
  then show ?case by simp
next
  case (Cons d ds)
  obtain rows g1 where r: "rows_for_items R d items g = (rows, g1)"
    by (cases "rows_for_items R d items g")
  obtain more g2 where m: "rows_for_dates R ds g1 = (more, g2)"
    by (cases "rows_for_dates R ds g1")
  have "\<forall>r\<in>set rows. 0 \<le> quantity_sold r"
    using rows_for_items_nonneg [of R d items g] r by simp
  moreover have "\<forall>r\<in>set more. 0 \<le> quantity_sold r"
    using Cons.IH [of g1] m by simp
  ultimately show ?case using r m by auto
qed

lemma get_sales_data_Inr:
  assumes "0 \<le> company_id" and "company_id < 2 ^ 32"
  shows "\<exists>t g'. get_sales_data R company_id g = (Inr t, g') \<and>
           map (\<lambda>r. (row_date r, row_item_name r)) t =
             List.product (date_range (days_from_civil 2023 1 1) (days_from_civil 2024 10 31)) items \<and>
           length t = 3350"
proof -
  let ?dates = "date_range (days_from_civil 2023 1 1) (days_from_civil 2024 10 31)"
  obtain t g' where run: "rows_for_dates R ?dates (seeded_state R company_id) = (t, g')"
    by (cases "rows_for_dates R ?dates (seeded_state R company_id)")
  have g: "get_sales_data R company_id g = (Inr t, g')"
    using assms run by (simp add: get_sales_data_def np_random_seed_def)
  have k: "map (\<lambda>r. (row_date r, row_item_name r)) t = List.product ?dates items"
    using rows_for_dates_keys [of R ?dates "seeded_state R company_id"] run by simp
  have "length t = length (List.product ?dates items)"
    using arg_cong [OF k, of length] by simp
  then have "length t = 3350"
    by (simp add: sales_window_length items_def)
  with g k show ?thesis by blast
qed

lemma get_sales_data_Inl:
  assumes "\<not> (0 \<le> company_id \<and> company_id < 2 ^ 32)"
  shows "get_sales_data R company_id g = (Inl ValueError, g)"
  using assms by (auto simp: get_sales_data_def np_random_seed_def)


lemma get_sales_data_nonneg:
  assumes "get_sales_data R company_id g = (Inr t, g')"
  shows "\<forall>r\<in>set t. 0 \<le> quantity_sold r"
proof -
  let ?dates = "date_range (days_from_civil 2023 1 1) (days_from_civil 2024 10 31)"
  from assms have "t = fst (rows_for_dates R ?dates (seeded_state R company_id))"
    by (auto simp: get_sales_data_def np_random_seed_def Let_def split: if_splits prod.splits)
  then show ?thesis using rows_for_dates_nonneg by simp
qed

text \<open>
  C4. The generator is a function of the company identifier alone: the table (or the
  error) of a call does not depend on the state in which the call finds numpy's
  generator, so a second call with the same identifier, which starts from the state the
  first one left, returns the same table.
\<close>

theorem generator_deterministic:
  "fst (get_sales_data R company_id (snd (get_sales_data R company_id g)))
     = fst (get_sales_data R company_id g) \<and>
   fst (get_sales_data R company_id g) = fst (get_sales_data R company_id g')"
  by (simp add: get_sales_data_def np_random_seed_def Let_def split: prod.splits)

text \<open>
  C9 (as amended: a table for the identifiers numpy accepts as a seed). For an identifier
  with \<open>0 \<le> id < 2^32\<close> the generator returns one row for each of the five items on each
  day from 2023-01-01 to 2024-10-31, 3350 rows, and the guarded body of \<open>predict\<close> is then
  the ML path: the branch for fewer than 10 rows is not taken. For any other identifier
  seeding raises \<open>ValueError\<close>, no table exists, and the guarded body raises before the
  row count is read. So the row-count branch is unreachable for every identifier.
\<close>

theorem row_count_branch_unreachable:
  "(0 \<le> company_id \<and> company_id < 2 ^ 32 \<longrightarrow>
      (\<exists>t g'. get_sales_data R company_id g = (Inr t, g') \<and>
         map (\<lambda>r. (row_date r, row_item_name r)) t =
           List.product (date_range (days_from_civil 2023 1 1) (days_from_civil 2024 10 31)) items \<and>
         length t = 3350 \<and>
         predict_try R L today company_id budget days_ahead g =
           (ml_path L today t budget days_ahead, g'))) \<and>
   (\<not> (0 \<le> company_id \<and> company_id < 2 ^ 32) \<longrightarrow>
      get_sales_data R company_id g = (Inl ValueError, g) \<and>
      predict_try R L today company_id budget days_ahead g = (Inl ValueError, g))"
proof (intro conjI impI)
  assume "0 \<le> company_id \<and> company_id < 2 ^ 32"
  then obtain t g' where
    t: "get_sales_data R company_id g = (Inr t, g')"
       "map (\<lambda>r. (row_date r, row_item_name r)) t =
           List.product (date_range (days_from_civil 2023 1 1) (days_from_civil 2024 10 31)) items"
       "length t = 3350"
    using get_sales_data_Inr [of company_id R g] by blast
  have "predict_try R L today company_id budget days_ahead g =
           (ml_path L today t budget days_ahead, g')"
    using t(1) t(3) by (simp add: predict_try_def)
  with t show "\<exists>t g'. get_sales_data R company_id g = (Inr t, g') \<and>
         map (\<lambda>r. (row_date r, row_item_name r)) t =
           List.product (date_range (days_from_civil 2023 1 1) (days_from_civil 2024 10 31)) items \<and>
         length t = 3350 \<and>
         predict_try R L today company_id budget days_ahead g =
           (ml_path L today t budget days_ahead, g')"
    by blast
next
  assume a: "\<not> (0 \<le> company_id \<and> company_id < 2 ^ 32)"
  show "get_sales_data R company_id g = (Inl ValueError, g)"
    by (rule get_sales_data_Inl [OF a])
  then show "predict_try R L today company_id budget days_ahead g = (Inl ValueError, g)"
    by (simp add: predict_try_def)
qed

text \<open>The theorem at the identifiers \<open>1\<close> and \<open>-1\<close>.\<close>

theorem row_count_branch_unreachable_witness:
  "((0::int) \<le> 1 \<and> (1::int) < 2 ^ 32) \<and>
   (\<exists>t g'. get_sales_data sample_rng 1 0 = (Inr t, g') \<and> length t = 3350 \<and>
      predict_try sample_rng sample_library 20761 1 (Some 300000) 90 0 =
        (ml_path sample_library 20761 t (Some 300000) 90, g')) \<and>
   \<not> ((0::int) \<le> - 1 \<and> (- 1::int) < 2 ^ 32) \<and>
   predict_try sample_rng sample_library 20761 (- 1) (Some 300000) 90 0 = (Inl ValueError, 0)"
  using row_count_branch_unreachable [of 1 sample_rng 0 sample_library 20761 "Some 300000" 90]
    row_count_branch_unreachable [of "- 1" sample_rng 0 sample_library 20761 "Some 300000" 90]
  by auto

text \<open>
  As stated for every identifier, the first half of the claim fails: the identifier \<open>-1\<close>
  gets no table.
\<close>

theorem sales_table_seed_range_counterexample:
  "get_sales_data sample_rng (- 1) 0 = (Inl ValueError, 0)"
  by (simp add: get_sales_data_def np_random_seed_def)

subsection \<open>Order of the demand horizons and range of the confidence\<close>

lemma ordered_nonneg: "horizons_ordered p \<Longrightarrow> horizons_nonneg p"
  by (auto simp: horizons_ordered_def horizons_nonneg_def)

subsection \<open>Truncation and sums\<close>

lemma py_int_nonneg: "0 \<le> x \<Longrightarrow> 0 \<le> py_int x"
  by (simp add: py_int_def)

lemma py_int_mono: "0 \<le> x \<Longrightarrow> x \<le> y \<Longrightarrow> py_int x \<le> py_int y"
  by (simp add: py_int_def floor_mono)

lemma py_int_ge: "0 \<le> x \<Longrightarrow> of_int z \<le> x \<Longrightarrow> z \<le> py_int x"
  by (simp add: py_int_def le_floor_iff)

lemma sum_list_nonneg_real: "\<forall>x\<in>set xs. (0::real) \<le> x \<Longrightarrow> 0 \<le> sum_list xs"
  by (induction xs) auto

lemma sum_take_le:
  assumes "\<forall>x\<in>set xs. (0::real) \<le> x"
  shows "sum_list (take n xs) \<le> sum_list xs"
proof -
  have "sum_list xs = sum_list (take n xs) + sum_list (drop n xs)"
    by (metis append_take_drop_id sum_list_append)
  moreover have "0 \<le> sum_list (drop n xs)"
    using assms by (intro sum_list_nonneg_real) (auto dest: in_set_dropD)
  ultimately show ?thesis by simp
qed

lemma sum_take_mono:
  assumes "\<forall>x\<in>set xs. (0::real) \<le> x" and "m \<le> n"
  shows "sum_list (take m xs) \<le> sum_list (take n xs)"
proof -
  have "take m xs = take m (take n xs)" using assms(2) by (simp add: min_def)
  moreover have "\<forall>x\<in>set (take n xs). 0 \<le> x" using assms(1) by (auto dest: in_set_takeD)
  ultimately show ?thesis using sum_take_le [of "take n xs" m] by simp
qed

subsection \<open>The forecaster\<close>

lemma np_mean_nonneg: "\<forall>x\<in>set xs. 0 \<le> x \<Longrightarrow> 0 \<le> np_mean xs"
  by (simp add: np_mean_def sum_list_nonneg_real)

lemma mean_absolute_error_nonneg: "0 \<le> mean_absolute_error y_true y_pred"
  unfolding mean_absolute_error_def by (rule np_mean_nonneg) auto

lemma ml_confidence_bounds:
  assumes "\<forall>y\<in>set y_test. 0 \<le> y"
  shows "0.3 \<le> ml_confidence y_test y_pred \<and> ml_confidence y_test y_pred \<le> 1"
proof (cases "np_mean y_test = 0")
  case True
  then show ?thesis by (simp add: ml_confidence_def)
next
  case False
  with np_mean_nonneg [OF assms] have pos: "0 < np_mean y_test" by simp
  have "0 \<le> mean_absolute_error y_test y_pred / np_mean y_test"
    using mean_absolute_error_nonneg pos by simp
  with False show ?thesis by (simp add: ml_confidence_def Let_def)
qed

lemma take_nonneg: "\<forall>x\<in>set xs. (0::real) \<le> x \<Longrightarrow> 0 \<le> sum_list (take n xs)"
  by (rule sum_list_nonneg_real) (auto dest: in_set_takeD)

lemma ml_item_props:
  assumes "ml_item L today days_ahead name item_df = Inr p"
    and "\<forall>x. 0 \<le> forest_fit L (fst (train_test_split L item_df)) x"
    and "\<forall>xy\<in>set (snd (train_test_split L item_df)). 0 \<le> snd xy"
  shows "horizons_ordered p \<and> confidence_in 0.3 1 p"
proof -
  define model where "model = forest_fit L (fst (train_test_split L item_df))"
  define test where "test = snd (train_test_split L item_df)"
  define fp where "fp = map model (map features_of (date_range_periods (today + 1) days_ahead))"
  from assms(1) have p:
    "predicted_demand_30d p = py_int (sum_list (take 30 fp))"
    "predicted_demand_60d p = py_int (sum_list (take 60 fp))"
    "predicted_demand_90d p = py_int (sum_list fp)"
    "confidence p = ml_confidence (map snd test) (map (\<lambda>r. model (fst r)) test)"
    by (auto simp: ml_item_def Let_def model_def test_def fp_def split: prod.splits if_splits)
  have nn: "\<forall>x\<in>set fp. 0 \<le> x"
    using assms(2) unfolding fp_def model_def by (simp del: split_paired_All)
  have a: "0 \<le> sum_list (take 30 fp)"
    by (rule take_nonneg [OF nn])
  have b: "sum_list (take 30 fp) \<le> sum_list (take 60 fp)"
    by (rule sum_take_mono [OF nn]) simp
  have c: "sum_list (take 60 fp) \<le> sum_list fp"
    by (rule sum_take_le [OF nn])
  have "0 \<le> py_int (sum_list (take 30 fp))"
    by (rule py_int_nonneg [OF a])
  moreover have "py_int (sum_list (take 30 fp)) \<le> py_int (sum_list (take 60 fp))"
    by (rule py_int_mono [OF a b])
  moreover have "py_int (sum_list (take 60 fp)) \<le> py_int (sum_list fp)"
    using a b by (intro py_int_mono [OF _ c]) linarith
  ultimately have "horizons_ordered p"
    by (simp add: horizons_ordered_def p)
  moreover have "\<forall>y\<in>set (map snd test). 0 \<le> y"
    using assms(3) unfolding test_def by simp
  from ml_confidence_bounds [OF this] have "confidence_in 0.3 1 p"
    by (simp add: confidence_in_def p(4))
  ultimately show ?thesis by blast
qed

lemma ml_loop_props:
  assumes "library_sound L" and "\<forall>g\<in>set groups. \<forall>xy\<in>set (snd g). 0 \<le> snd xy"
    and "ml_loop L today days_ahead groups = Inr ps"
  shows "\<forall>p\<in>set ps. horizons_ordered p \<and> confidence_in 0.3 1 p"
  using assms(2,3)
proof (induction groups arbitrary: ps)
  case Nil
  then show ?case by simp
next
  case (Cons g groups)
  obtain name item_df where g: "g = (name, item_df)" by (cases g)
  have rest: "\<forall>g\<in>set groups. \<forall>xy\<in>set (snd g). 0 \<le> snd xy" using Cons.prems(1) by simp
  have df: "\<forall>xy\<in>set item_df. 0 \<le> snd xy" using Cons.prems(1) g by simp
  show ?case
  proof (cases "length item_df < 5")
    case True
    with Cons.prems(2) g have "ml_loop L today days_ahead groups = Inr ps" by simp
    from Cons.IH [OF rest this] show ?thesis .
  next
    case False
    with Cons.prems(2) g obtain p ps' where
      p: "ml_item L today days_ahead name item_df = Inr p" and
      l: "ml_loop L today days_ahead groups = Inr ps'" and
      ps: "ps = p # ps'"
      by (auto split: sum.splits)
    have tr: "\<forall>xy\<in>set (fst (train_test_split L item_df)). 0 \<le> snd xy"
      using assms(1) df unfolding library_sound_def by blast
    have te: "\<forall>xy\<in>set (snd (train_test_split L item_df)). 0 \<le> snd xy"
      using assms(1) df unfolding library_sound_def by blast
    have fit: "\<forall>x. 0 \<le> forest_fit L (fst (train_test_split L item_df)) x"
      using assms(1) tr unfolding library_sound_def by blast
    from ml_item_props [OF p fit te] Cons.IH [OF rest l] ps show ?thesis by simp
  qed
qed

lemma ml_prediction_props:
  assumes "library_sound L" and "\<forall>r\<in>set sales_data. 0 \<le> quantity_sold r"
  shows "\<forall>p\<in>set (ml_prediction L today sales_data days_ahead).
           horizons_ordered p \<and> confidence_in 0.3 1 p"
proof (cases "ml_loop L today days_ahead (group_mean L sales_data)")
  case (Inl e)
  then show ?thesis by (simp add: ml_prediction_def)
next
  case (Inr ps)
  have "\<forall>g\<in>set (group_mean L sales_data). \<forall>xy\<in>set (snd g). 0 \<le> snd xy"
    using assms unfolding library_sound_def by blast
  from ml_loop_props [OF assms(1) this Inr] Inr show ?thesis by (simp add: ml_prediction_def)
qed

subsection \<open>The seasonal adjuster\<close>

lemma seasonal_item_props:
  assumes "horizons_ordered p"
  shows "horizons_nonneg (seasonal_item m p)"
    and "confidence (seasonal_item m p) = confidence p"
    and "m \<notin> {6, 7, 8} \<Longrightarrow> horizons_ordered (seasonal_item m p)"
proof -
  from assms have d: "0 \<le> predicted_demand_90d p"
    by (simp add: horizons_ordered_def)
  have up: "0 \<le> real_of_int (predicted_demand_90d p) * 1.3"
    and down: "0 \<le> real_of_int (predicted_demand_90d p) * 0.9"
    using d by simp_all
  show "horizons_nonneg (seasonal_item m p)"
    using assms py_int_nonneg [OF up] py_int_nonneg [OF down]
    by (simp add: seasonal_item_def horizons_nonneg_def horizons_ordered_def)
  show "confidence (seasonal_item m p) = confidence p"
    by (simp add: seasonal_item_def)
  have "real_of_int (predicted_demand_90d p) \<le> real_of_int (predicted_demand_90d p) * 1.3"
    using d by simp
  from py_int_ge [OF up this]
  have "predicted_demand_90d p \<le> py_int (real_of_int (predicted_demand_90d p) * 1.3)" .
  then show "m \<notin> {6, 7, 8} \<Longrightarrow> horizons_ordered (seasonal_item m p)"
    using assms by (auto simp: seasonal_item_def horizons_ordered_def)
qed

lemma seasonal_props:
  assumes "\<forall>p\<in>set ps. horizons_ordered p \<and> confidence_in lo hi p"
  shows "\<forall>p\<in>set (apply_seasonal_adjustments today ps).
           horizons_nonneg p \<and> confidence_in lo hi p \<and>
           (month_of today \<notin> {6, 7, 8} \<longrightarrow> horizons_ordered p)"
  using assms seasonal_item_props
  by (auto simp: apply_seasonal_adjustments_def confidence_in_def)

lemma price_item_keeps:
  "price_item q = Inr q' \<Longrightarrow>
     predicted_demand_30d q' = predicted_demand_30d q \<and>
     predicted_demand_60d q' = predicted_demand_60d q \<and>
     predicted_demand_90d q' = predicted_demand_90d q \<and>
     confidence q' = confidence q"
  by (auto simp: price_item_Inr)

lemma partial_item_keeps:
  "predicted_demand_30d (partial_item q rem) = predicted_demand_30d q \<and>
   predicted_demand_60d (partial_item q rem) = predicted_demand_60d q \<and>
   confidence (partial_item q rem) = confidence q \<and>
   (1000 \<le> rem \<longrightarrow> 10 \<le> predicted_demand_90d (partial_item q rem))"
  by (auto simp: partial_item_def py_int_def le_floor_iff)

lemma subseq_set: "subseq xs ys \<Longrightarrow> set xs \<subseteq> set ys"
  by (auto dest: list_emb_set)


lemma price_all_sources:
  "price_all ps = Inr qs \<Longrightarrow> \<forall>q'\<in>set qs. \<exists>q\<in>set ps. price_item q = Inr q'"
proof (induction ps arbitrary: qs)
  case Nil
  then show ?case by simp
next
  case (Cons p ps)
  from Cons.prems obtain p' qs' where
    a: "price_item p = Inr p'" "price_all ps = Inr qs'" "qs = p' # qs'"
    by (auto split: sum.splits)
  from Cons.IH [OF a(2)] a(1) a(3) show ?case by auto
qed

lemma sorted_priced_sources:
  assumes "price_all ps = Inr priced" and "sort_by_roi priced = Inr sorted_preds"
    and "q' \<in> set sorted_preds"
  shows "\<exists>q\<in>set ps.
           predicted_demand_30d q' = predicted_demand_30d q \<and>
           predicted_demand_60d q' = predicted_demand_60d q \<and>
           predicted_demand_90d q' = predicted_demand_90d q \<and>
           confidence q' = confidence q"
proof -
  have "set sorted_preds = set priced"
    using assms(2) by (auto simp: sort_by_roi_def split: if_splits)
  with assms(3) have "q' \<in> set priced" by simp
  with price_all_sources [OF assms(1)] obtain q where
    "q \<in> set ps" "price_item q = Inr q'" by blast
  with price_item_keeps [of q q'] show ?thesis by blast
qed


lemma budget_props:
  assumes run: "apply_budget_constraints ps b = Inr r"
    and inp: "\<forall>p\<in>set ps. horizons_nonneg p \<and> confidence_in lo hi p"
  shows "(\<forall>p\<in>set r. horizons_nonneg p \<and> confidence_in lo hi p) \<and>
         ((\<forall>p\<in>set ps. horizons_ordered p) \<longrightarrow> (\<forall>p\<in>set (butlast r). horizons_ordered p))"
proof -
  from run obtain priced sorted_preds where
    p: "price_all ps = Inr priced" and
    s: "sort_by_roi priced = Inr sorted_preds" and
    l: "allocate_loop b 0 [] sorted_preds = Inr r"
    by (auto simp: apply_budget_constraints_def split: sum.splits)
  have weak: "horizons_nonneg q' \<and> confidence_in lo hi q'" if "q' \<in> set sorted_preds" for q'
  proof -
    from sorted_priced_sources [OF p s that] obtain q where
      q: "q \<in> set ps" "predicted_demand_30d q' = predicted_demand_30d q"
         "predicted_demand_60d q' = predicted_demand_60d q"
         "predicted_demand_90d q' = predicted_demand_90d q" "confidence q' = confidence q"
      by blast
    from inp q(1) have "horizons_nonneg q \<and> confidence_in lo hi q" by blast
    then show ?thesis by (simp add: horizons_nonneg_def confidence_in_def q)
  qed
  have strong: "horizons_ordered q'"
    if "q' \<in> set sorted_preds" and "\<forall>p\<in>set ps. horizons_ordered p" for q'
  proof -
    from sorted_priced_sources [OF p s that(1)] obtain q where
      q: "q \<in> set ps" "predicted_demand_30d q' = predicted_demand_30d q"
         "predicted_demand_60d q' = predicted_demand_60d q"
         "predicted_demand_90d q' = predicted_demand_90d q"
      by blast
    from that(2) q(1) have "horizons_ordered q" by blast
    then show ?thesis by (simp add: horizons_ordered_def q)
  qed
  from allocate_loop_shape [OF l] show ?thesis
  proof
    assume "\<exists>xs. r = [] @ xs \<and> subseq xs sorted_preds"
    then have "subseq r sorted_preds" by simp
    then have sub: "set r \<subseteq> set sorted_preds" by (rule subseq_set)
    have "set (butlast r) \<subseteq> set r" by (auto dest: in_set_butlastD)
    with sub have sub': "set (butlast r) \<subseteq> set sorted_preds" by blast
    from sub sub' weak strong show ?thesis by blast
  next
    assume "\<exists>pre q post xs.
        sorted_preds = pre @ q # post \<and> allocate_loop b 0 [] pre = Inr ([] @ xs) \<and>
        subseq xs pre \<and>
        (pre = [] \<and> xs = [] \<or> pre \<noteq> [] \<and> xs \<noteq> [] \<and> last xs = last pre) \<and>
        1000 \<le> b - (0 + investment_sum xs) \<and>
        r = [] @ xs @ [partial_item q (b - (0 + investment_sum xs))]"
    then obtain pre q post xs where
      c: "sorted_preds = pre @ q # post" "subseq xs pre" "1000 \<le> b - investment_sum xs"
         "r = xs @ [partial_item q (b - investment_sum xs)]"
      by auto
    have "set xs \<subseteq> set pre" using c(2) by (rule subseq_set)
    then have xs: "set xs \<subseteq> set sorted_preds" using c(1) by auto
    have q: "q \<in> set sorted_preds" using c(1) by simp
    let ?part = "partial_item q (b - investment_sum xs)"
    from weak [OF q] have wq: "horizons_nonneg q" "confidence_in lo hi q" by simp_all
    from partial_item_keeps [of q "b - investment_sum xs"] c(3) have
      k: "predicted_demand_30d ?part = predicted_demand_30d q"
         "predicted_demand_60d ?part = predicted_demand_60d q"
         "confidence ?part = confidence q"
         "10 \<le> predicted_demand_90d ?part"
      by simp_all
    have part: "horizons_nonneg ?part \<and> confidence_in lo hi ?part"
      using wq k by (simp add: horizons_nonneg_def confidence_in_def)
    have all: "\<forall>p\<in>set r. horizons_nonneg p \<and> confidence_in lo hi p"
    proof
      fix p assume "p \<in> set r"
      then have "p \<in> set xs \<or> p = ?part" using c(4) by auto
      then show "horizons_nonneg p \<and> confidence_in lo hi p"
        using xs weak part by blast
    qed
    have bl: "butlast r = xs" using c(4) by simp
    have "(\<forall>p\<in>set ps. horizons_ordered p) \<longrightarrow> (\<forall>p\<in>set (butlast r). horizons_ordered p)"
      unfolding bl using xs strong by blast
    with all show ?thesis by blast
  qed
qed

subsection \<open>The fallback generator\<close>

lemma fallback_items_props:
  "\<forall>p\<in>set (fallback_items budget).
     horizons_ordered p \<and> confidence_in 0.4 0.6 p \<and> predicted_demand_90d p \<noteq> 0"
  by (cases "truthy budget")
     (simp_all add: fallback_items_def default_items_def enumerate_eq_zip fallback_item_def
        horizons_ordered_def confidence_in_def Let_def)




lemma fallback_prediction_props:
  assumes "fallback_prediction budget days_ahead = Inr r"
  shows "(\<forall>p\<in>set r. horizons_nonneg p \<and> confidence_in 0.4 0.6 p) \<and>
         (\<forall>p\<in>set (if truthy budget then butlast r else r). horizons_ordered p)"
proof (cases "truthy budget")
  case True
  then obtain b where b: "budget = Some b" "b \<noteq> 0" by (cases budget) auto
  with assms have run: "apply_budget_constraints (fallback_items budget) b = Inr r"
    by (simp add: fallback_prediction_def)
  have inp: "\<forall>p\<in>set (fallback_items budget). horizons_nonneg p \<and> confidence_in 0.4 0.6 p"
    using fallback_items_props ordered_nonneg by blast
  have ord: "\<forall>p\<in>set (fallback_items budget). horizons_ordered p"
    using fallback_items_props by blast
  from budget_props [OF run inp] ord True show ?thesis by simp
next
  case False
  with assms have "r = fallback_items budget"
    by (cases budget) (simp_all add: fallback_prediction_def split: if_splits)
  with False fallback_items_props ordered_nonneg show ?thesis by auto
qed

subsection \<open>The public operation\<close>

lemma ml_path_props:
  assumes sound: "library_sound L"
    and sales: "\<forall>row\<in>set sales_data. 0 \<le> quantity_sold row"
    and run: "ml_path L today sales_data budget days_ahead = Inr r"
  shows "(\<forall>p\<in>set r. horizons_nonneg p \<and> confidence_in 0.3 1 p) \<and>
         (month_of today \<notin> {6, 7, 8} \<longrightarrow>
            (\<forall>p\<in>set (if truthy budget then butlast r else r). horizons_ordered p))"
proof -
  define preds where
    "preds = apply_seasonal_adjustments today (ml_prediction L today sales_data days_ahead)"
  have adj: "\<forall>p\<in>set preds. horizons_nonneg p \<and> confidence_in 0.3 1 p \<and>
               (month_of today \<notin> {6, 7, 8} \<longrightarrow> horizons_ordered p)"
    unfolding preds_def by (rule seasonal_props [OF ml_prediction_props [OF sound sales]])
  show ?thesis
  proof (cases "truthy budget")
    case True
    then obtain b where b: "budget = Some b" "b \<noteq> 0" by (cases budget) auto
    with run have alloc: "apply_budget_constraints preds b = Inr r"
      by (simp add: ml_path_def preds_def)
    have inp: "\<forall>p\<in>set preds. horizons_nonneg p \<and> confidence_in 0.3 1 p"
      using adj by blast
    from budget_props [OF alloc inp] adj True show ?thesis by simp
  next
    case False
    with run have "r = preds"
      by (cases budget) (simp_all add: ml_path_def preds_def split: if_splits)
    with False adj show ?thesis by simp
  qed
qed



subsection \<open>The sample inputs\<close>

lemma sample_library_sound: "library_sound sample_library"
  unfolding library_sound_def
proof (intro conjI allI impI)
  fix rows :: "sales_row list"
  show "\<forall>g\<in>set (group_mean sample_library rows). \<forall>xy\<in>set (snd g). 0 \<le> snd xy"
    by (simp add: sample_library_def)
next
  fix df :: "(feature \<times> real) list"
  show "set (fst (train_test_split sample_library df)) \<subseteq> set df"
    by (simp add: sample_library_def set_take_subset)
  show "set (snd (train_test_split sample_library df)) \<subseteq> set df"
    by (simp add: sample_library_def set_drop_subset)
next
  fix train :: "(feature \<times> real) list" and x :: feature
  assume "\<forall>xy\<in>set train. 0 \<le> snd xy"
  then have "\<forall>y\<in>set (map snd train). 0 \<le> y" by simp
  from np_mean_nonneg [OF this] show "0 \<le> forest_fit sample_library train x"
    by (simp add: sample_library_def)
qed

lemma november_day: "month_of 20761 = 11"
  by (simp add: month_of_def civil_from_days_def Let_def cong: let_weak_cong)


lemma sample_ml_90:
  "ml_prediction sample_library today t 90 =
     [\<lparr>item_name = ''item_a'', predicted_demand_30d = 307, predicted_demand_60d = 615,
       predicted_demand_90d = 922, avg_daily_demand = 41 / 4, confidence = 31 / 36,
       reason = ''Based on historical sales patterns and machine learning'',
       investment_required = None, expected_profit = None, roi_percentage = None\<rparr>]"
  by (simp add: ml_prediction_def sample_library_def ml_item_def date_range_periods_def
      np_mean_def ml_confidence_def mean_absolute_error_def py_int_def Let_def upto_rec1)





lemma sample_path_november:
  "ml_path sample_library 20761 t None 90 =
     Inr [\<lparr>item_name = ''item_a'', predicted_demand_30d = 307, predicted_demand_60d = 615,
       predicted_demand_90d = 1198, avg_daily_demand = 41 / 4, confidence = 31 / 36,
       reason = ''Based on historical sales patterns and machine learning'',
       investment_required = None, expected_profit = None, roi_percentage = None\<rparr>]"
  by (simp add: ml_path_def sample_ml_90 apply_seasonal_adjustments_def seasonal_item_def
      november_day py_int_def)











text \<open>
  C5. For a sound library, every prediction of the ML path (after the seasonal adjuster
  and, with a budget, the budget allocator) built from a table of the generator has a
  confidence in \<open>[0.3, 1]\<close>; every prediction of the fallback generator (with or without a
  budget) has a confidence in \<open>[0.4, 0.6]\<close>; and the formula
  \<open>max(0.3, 1 - mae / mean(y_test))\<close> itself stays in \<open>[0.3, 1]\<close> for non-negative test
  targets.
\<close>

theorem confidence_bounds:
  "(library_sound L \<and> get_sales_data R company_id g = (Inr sales_data, g') \<and>
      ml_path L today sales_data budget days_ahead = Inr r \<longrightarrow>
      (\<forall>p\<in>set r. 0.3 \<le> confidence p \<and> confidence p \<le> 1)) \<and>
   (fallback_prediction budget days_ahead = Inr r' \<longrightarrow>
      (\<forall>p\<in>set r'. 0.4 \<le> confidence p \<and> confidence p \<le> 0.6)) \<and>
   ((\<forall>y\<in>set y_test. 0 \<le> y) \<longrightarrow>
      0.3 \<le> ml_confidence y_test y_pred \<and> ml_confidence y_test y_pred \<le> 1)"
proof (intro conjI impI)
  assume a: "library_sound L \<and> get_sales_data R company_id g = (Inr sales_data, g') \<and>
      ml_path L today sales_data budget days_ahead = Inr r"
  then have t: "get_sales_data R company_id g = (Inr sales_data, g')" by simp
  from a ml_path_props [OF _ get_sales_data_nonneg [OF t]]
  have "\<forall>p\<in>set r. confidence_in 0.3 1 p" by blast
  then show "\<forall>p\<in>set r. 0.3 \<le> confidence p \<and> confidence p \<le> 1"
    by (simp add: confidence_in_def)
next
  assume "fallback_prediction budget days_ahead = Inr r'"
  from fallback_prediction_props [OF this] have "\<forall>p\<in>set r'. confidence_in 0.4 0.6 p" by blast
  then show "\<forall>p\<in>set r'. 0.4 \<le> confidence p \<and> confidence p \<le> 0.6"
    by (simp add: confidence_in_def)
next
  assume "\<forall>y\<in>set y_test. 0 \<le> y"
  from ml_confidence_bounds [OF this]
  show "0.3 \<le> ml_confidence y_test y_pred" "ml_confidence y_test y_pred \<le> 1" by simp_all
qed

text \<open>The theorem for company 1 on 2026-11-04 and for the fallback catalogue.\<close>

theorem confidence_bounds_witness:
  "library_sound sample_library \<and>
   (\<exists>t g' r. get_sales_data sample_rng 1 0 = (Inr t, g') \<and>
      ml_path sample_library 20761 t None 90 = Inr r \<and> r \<noteq> [] \<and>
      (\<forall>p\<in>set r. 0.3 \<le> confidence p \<and> confidence p \<le> 1)) \<and>
   (\<exists>r'. fallback_prediction None 90 = Inr r' \<and> r' \<noteq> [] \<and>
      (\<forall>p\<in>set r'. 0.4 \<le> confidence p \<and> confidence p \<le> 0.6)) \<and>
   (0::real) \<le> 9 \<and>
   0.3 \<le> ml_confidence [9] [41 / 4] \<and> ml_confidence [9] [41 / 4] \<le> 1"
proof -
  obtain t g' where t: "get_sales_data sample_rng 1 0 = (Inr t, g')"
    using get_sales_data_Inr [of 1 sample_rng 0] by auto
  obtain r where r: "ml_path sample_library 20761 t None 90 = Inr r" "r \<noteq> []"
    using sample_path_november [of t] by simp
  obtain r' where r': "fallback_prediction None 90 = Inr r'" "r' \<noteq> []"
    by (simp add: fallback_prediction_def fallback_items_def default_items_def)
  have y: "\<forall>y\<in>set [9::real]. 0 \<le> y" by simp
  note inst = confidence_bounds [of sample_library sample_rng 1 0 t g' 20761 None 90 r r' "[9]" "[41 / 4]"]
  from inst sample_library_sound t r r' y show ?thesis by simp
qed




end
